theory Spec2Isabelle
  imports Main "HOL-Library.Word"
begin

section \<open>JavaScript strings\<close>

text \<open>
  A JavaScript string is a sequence of UTF-16 code units. Literals of the source that are
  plain ASCII are written with \<open>lit\<close>; every ASCII character is one code unit.
  An absent property (\<open>undefined\<close>) of an object is \<open>None\<close>.
\<close>

type_synonym jsstring = "16 word list"

definition lit :: "string \<Rightarrow> jsstring" where
  "lit s = map (\<lambda>c. of_nat (of_char c)) s"

text \<open>
  \<open>String.prototype.trim\<close> strips the code units of ECMAScript's WhiteSpace and
  LineTerminator productions from both ends.
\<close>

definition isWhiteSpace :: "16 word \<Rightarrow> bool" where
  "isWhiteSpace c = (c \<in> set [0x09, 0x0A, 0x0B, 0x0C, 0x0D, 0x20, 0xA0, 0x1680,
     0x2000, 0x2001, 0x2002, 0x2003, 0x2004, 0x2005, 0x2006, 0x2007, 0x2008, 0x2009, 0x200A,
     0x2028, 0x2029, 0x202F, 0x205F, 0x3000, 0xFEFF])"

definition trim :: "jsstring \<Rightarrow> jsstring" where
  "trim s = rev (dropWhile isWhiteSpace (rev (dropWhile isWhiteSpace s)))"

text \<open>\<open>str.replace(pat, by)\<close> with a string pattern of one code unit: only the first
  occurrence is replaced.\<close>

fun replace_first :: "16 word \<Rightarrow> jsstring \<Rightarrow> jsstring \<Rightarrow> jsstring" where
  "replace_first p by [] = []"
| "replace_first p by (c # cs) = (if c = p then by @ cs else c # replace_first p by cs)"

text \<open>Opaque JSON passed through unread (citation lists, diagram specs, mode lists): kept as
  its serialised text.\<close>

type_synonym json = jsstring

section \<open>GuidedTour.js\<close>

text \<open>The props a child component calls back into its host.\<close>

datatype callback = OnExitTour | OnSendMessage jsstring | OnNewConversation

text \<open>A stage descriptor of the script. The \<open>content\<close> field (the prose of the stage,
  read only by the markup) is left out; the order and number of stages is the source's.\<close>

record stage =
  name :: jsstring
  title :: jsstring
  deepDivePrompt :: jsstring
  continuePrompt :: jsstring

definition stages :: "stage list" where
  "stages = [
     \<lparr>name = lit ''Overview'', title = lit ''What is Maveric RADP?'',
      deepDivePrompt = lit ''Explain the key benefits and use cases of Maveric RADP in detail'',
      continuePrompt = lit ''Continue to Setup''\<rparr>,
     \<lparr>name = lit ''Setup'', title = lit ''Stage 1: Simulation Configuration'',
      deepDivePrompt = lit ''Show me detailed examples of network topology configuration and simulation parameters'',
      continuePrompt = lit ''Continue to Digital Twin''\<rparr>,
     \<lparr>name = lit ''Digital Twin'', title = lit ''Stage 2: Digital Twin Intelligence'',
      deepDivePrompt = lit ''Explain how the Digital Twin training process works and what algorithms are used'',
      continuePrompt = lit ''Continue to RF Prediction''\<rparr>,
     \<lparr>name = lit ''RF Prediction'', title = lit ''Stage 3: RF Performance Analysis'',
      deepDivePrompt = lit ''Show me examples of RF prediction outputs and how to interpret coverage maps'',
      continuePrompt = lit ''Continue to Orchestration''\<rparr>,
     \<lparr>name = lit ''Orchestration'', title = lit ''Stage 4: Workflow Orchestration'',
      deepDivePrompt = lit ''Explain the orchestration architecture and how distributed processing works'',
      continuePrompt = lit ''Complete Tour''\<rparr>]"

text \<open>The component's two \<open>useState\<close> cells, with their initial values.\<close>

record GuidedTour =
  currentStage :: nat
  tourStarted :: bool

definition GuidedTour_initial :: GuidedTour where
  "GuidedTour_initial = \<lparr>currentStage = 0, tourStarted = False\<rparr>"

text \<open>Every handler returns the component's next state and the props it called, in order.\<close>

definition handleStartTour :: "GuidedTour \<Rightarrow> GuidedTour \<times> callback list" where
  "handleStartTour t = (t\<lparr>tourStarted := True\<rparr>, [])"

definition handleContinue :: "GuidedTour \<Rightarrow> GuidedTour \<times> callback list" where
  "handleContinue t =
     (if int (currentStage t) < int (length stages) - 1
      then (t\<lparr>currentStage := currentStage t + 1\<rparr>, [])
      else (t, [OnExitTour]))"

text \<open>\<open>stages[currentStage]\<close> out of range is \<open>undefined\<close>, and reading its
  \<open>deepDivePrompt\<close> throws a TypeError: \<open>None\<close>.\<close>

definition handleDeepDive :: "GuidedTour \<Rightarrow> (GuidedTour \<times> callback list) option" where
  "handleDeepDive t =
     (if currentStage t < length stages
      then Some (t, [OnSendMessage (deepDivePrompt (stages ! currentStage t))])
      else None)"

definition handleAskQuestion :: "GuidedTour \<Rightarrow> GuidedTour \<times> callback list" where
  "handleAskQuestion t = (t, [OnExitTour])"

definition handleStageClick :: "nat \<Rightarrow> GuidedTour \<Rightarrow> GuidedTour \<times> callback list" where
  "handleStageClick index t =
     (if index \<le> currentStage t \<or> index = currentStage t + 1
      then (t\<lparr>currentStage := index\<rparr>, [])
      else (t, []))"

text \<open>What the component shows: the welcome card until the tour is started, then the
  stage numbered \<open>currentStage\<close>.\<close>

datatype TourState = NotStarted | Stage nat

definition GuidedTour_render :: "GuidedTour \<Rightarrow> TourState" where
  "GuidedTour_render t = (if \<not> tourStarted t then NotStarted else Stage (currentStage t))"

text \<open>A run of clicks on the continue button; the callbacks of all clicks are collected.\<close>

fun continues :: "nat \<Rightarrow> GuidedTour \<times> callback list \<Rightarrow> GuidedTour \<times> callback list" where
  "continues 0 tc = tc"
| "continues (Suc n) (t, cs) =
     (case handleContinue t of (t', cs') \<Rightarrow> continues n (t', cs @ cs'))"

section \<open>InputBox.js and the sidebar\<close>

record InputBox =
  message :: jsstring
  isFocused :: bool

text \<open>\<open>disabled\<close> is the prop of the host: \<open>disabled={isLoading}\<close>.\<close>

definition handleSubmit :: "bool \<Rightarrow> InputBox \<Rightarrow> InputBox \<times> callback list" where
  "handleSubmit disabled b =
     (if trim (message b) \<noteq> [] \<and> \<not> disabled
      then (b\<lparr>message := []\<rparr>, [OnSendMessage (message b)])
      else (b, []))"

definition handleKeyDown :: "jsstring \<Rightarrow> bool \<Rightarrow> bool \<Rightarrow> InputBox \<Rightarrow> InputBox \<times> callback list" where
  "handleKeyDown key shiftKey disabled b =
     (if key = lit ''Enter'' \<and> \<not> shiftKey then handleSubmit disabled b else (b, []))"

text \<open>The sidebar's \<open>handleNavigation\<close>; the host passes both props, so
  \<open>if (onSendMessage)\<close> holds.\<close>

definition handleNavigation :: "jsstring \<Rightarrow> callback list" where
  "handleNavigation section =
     (if section = lit ''home'' then [OnNewConversation]
      else if section = lit ''guided-tour'' then [OnNewConversation]
      else if section = lit ''ask-now'' then []
      else if section = lit ''api''
        then [OnSendMessage (lit ''Show me the complete API reference documentation for Maveric RADP'')]
      else if section = lit ''quickstart''
        then [OnSendMessage (lit ''Give me a quick start guide for getting started with Maveric RADP. What are the first steps?'')]
      else [])"

section \<open>Messages, requests and responses\<close>

record message =
  role :: "jsstring option"
  content :: "jsstring option"
  timestamp :: "jsstring option"
  sources :: "json option"
  visualization :: "json option"
  suggestions :: "jsstring list option"
  isError :: bool

text \<open>The body of \<open>POST /api/v1/chat\<close>.\<close>

record chat_request =
  req_message :: jsstring
  req_session_id :: "jsstring option"
  req_mode :: jsstring
  req_module :: "jsstring option"

text \<open>\<open>response.data\<close> of the chat endpoint; a property the service left out is
  \<open>None\<close>.\<close>

record chat_response =
  response :: "jsstring option"
  resp_timestamp :: "jsstring option"
  resp_sources :: "json option"
  resp_visualization :: "json option"
  resp_suggestions :: "jsstring list option"

text \<open>\<open>response.data\<close> of the history endpoint and its entries.\<close>

record history_message =
  h_role :: "jsstring option"
  h_content :: "jsstring option"
  h_timestamp :: "jsstring option"
  h_sources :: "json option"
  h_visualization :: "json option"

record history_data =
  h_messages :: "history_message list option"

text \<open>
  How an awaited axios promise ends: it rejects (no response, or a status outside 2xx), or
  it is fulfilled with \<open>response.data\<close>. \<open>Fulfilled None\<close> is a response whose data
  is \<open>null\<close> or \<open>undefined\<close>.
\<close>

datatype 'a settled = Rejected | Fulfilled "'a option"

definition userMessage :: "jsstring \<Rightarrow> jsstring \<Rightarrow> message" where
  "userMessage text now =
     \<lparr>role = Some (lit ''user''), content = Some text, timestamp = Some now,
      sources = None, visualization = None, suggestions = None, isError = False\<rparr>"

text \<open>
  The \<open>try\<close> block after the \<open>await\<close>, the same in both hosts. \<open>None\<close>: the block
  threw (the promise rejected, or \<open>response.data\<close> is \<open>null\<close>/\<open>undefined\<close> and
  reading \<open>.response\<close> of it is a TypeError). A data object that lacks properties does
  not throw: the properties are \<open>undefined\<close>.
\<close>

definition botMessage :: "chat_response settled \<Rightarrow> message option" where
  "botMessage r =
     (case r of
        Rejected \<Rightarrow> None
      | Fulfilled None \<Rightarrow> None
      | Fulfilled (Some d) \<Rightarrow>
          Some \<lparr>role = Some (lit ''assistant''), content = response d,
                timestamp = resp_timestamp d, sources = resp_sources d,
                visualization = resp_visualization d, suggestions = resp_suggestions d,
                isError = False\<rparr>)"

section \<open>State shared by the two hosts\<close>

text \<open>The browser's \<open>localStorage\<close>: keys with their values, a key at most once.\<close>

type_synonym storage = "(jsstring \<times> jsstring) list"

definition getItem :: "jsstring \<Rightarrow> storage \<Rightarrow> jsstring option" where
  "getItem k store = map_of store k"

fun setItem :: "jsstring \<Rightarrow> jsstring \<Rightarrow> storage \<Rightarrow> storage" where
  "setItem k v [] = [(k, v)]"
| "setItem k v ((k', v') # kvs) =
     (if k' = k then (k, v) # kvs else (k', v') # setItem k v kvs)"

text \<open>
  The \<open>useState\<close> cells both hosts have, the browser's \<open>localStorage\<close>, and
  \<open>inFlight\<close>: the bodies handed to \<open>axios.post\<close> whose promise has not settled yet,
  oldest first (bookkeeping of the model; the source keeps no such list).
\<close>

record chat_state =
  messages :: "message list"
  isLoading :: bool
  sessionId :: "jsstring option"
  selectedModule :: "jsstring option"
  localStorage :: storage
  inFlight :: "chat_request list"

definition storageKey :: jsstring where
  "storageKey = lit ''docbot_session_id''"

section \<open>Dashboard (src/unnamed/part_000)\<close>

text \<open>\<open>guidedTour\<close> is the state of the mounted \<open>GuidedTour\<close> child, \<open>None\<close> while the
  child is not rendered.\<close>

record Dashboard = chat_state +
  sidebarCollapsed :: bool
  showGuidedTour :: bool
  guidedTour :: "GuidedTour option"

definition Dashboard_initial :: "storage \<Rightarrow> Dashboard" where
  "Dashboard_initial store =
     \<lparr>messages = [], isLoading = False, sessionId = None, selectedModule = None,
      localStorage = store, inFlight = [],
      sidebarCollapsed = False, showGuidedTour = True,
      guidedTour = Some GuidedTour_initial\<rparr>"

text \<open>The body of the error message: the template literal up to its interpolation, then
  the clock reading \<open>new Date().toISOString()\<close> taken while the body is built, then the
  closing asterisk. The three code units before \<open>K\<close> are the characters of the source
  file at that place.\<close>

definition Dashboard_errorScript :: jsstring where
  "Dashboard_errorScript =
     lit ''**Error Processing Request**\<newline>\<newline>''
   @ lit ''We encountered an issue processing your request. This could be due to:\<newline>\<newline>''
   @ lit ''- Temporary connectivity issues\<newline>''
   @ lit ''- Server maintenance\<newline>''
   @ lit ''- Invalid request format\<newline>\<newline>''
   @ lit ''**What to try:**\<newline>''
   @ lit ''1. Check your internet connection\<newline>''
   @ lit ''2. Retry your request\<newline>''
   @ lit ''3. Try rephrasing your question\<newline>''
   @ lit ''4. Start a new conversation ('' @ [0xE2, 0x152, 0x2DC] @ lit ''K / Ctrl+K)\<newline>\<newline>''
   @ lit ''If the issue persists, please contact technical support.\<newline>\<newline>''
   @ lit ''*Timestamp: ''"

definition Dashboard_errorContent :: "jsstring \<Rightarrow> jsstring" where
  "Dashboard_errorContent now = Dashboard_errorScript @ now @ lit ''*''"

text \<open>The catch block reads the clock twice: \<open>now1\<close> inside the body, \<open>now2\<close> for the
  \<open>timestamp\<close> property.\<close>

definition Dashboard_errorMessage :: "jsstring \<Rightarrow> jsstring \<Rightarrow> message" where
  "Dashboard_errorMessage now1 now2 =
     \<lparr>role = Some (lit ''assistant''), content = Some (Dashboard_errorContent now1),
      timestamp = Some now2, sources = None, visualization = None, suggestions = None,
      isError = True\<rparr>"

text \<open>The body the handler posts, built from the state the handler sees.\<close>

definition Dashboard_request :: "jsstring \<Rightarrow> Dashboard \<Rightarrow> chat_request" where
  "Dashboard_request text s =
     \<lparr>req_message = text, req_session_id = sessionId s,
      req_mode = lit ''general_qa'', req_module = selectedModule s\<rparr>"

text \<open>\<open>handleSendMessage\<close> up to the \<open>await\<close>: \<open>now\<close> is the clock reading of the user
  message.\<close>

definition Dashboard_handleSendMessage :: "jsstring \<Rightarrow> jsstring \<Rightarrow> Dashboard \<Rightarrow> Dashboard" where
  "Dashboard_handleSendMessage text now s =
     (if trim text = [] then s
      else s\<lparr>showGuidedTour := False,
              messages := messages s @ [userMessage text now],
              isLoading := True,
              inFlight := inFlight s @ [Dashboard_request text s]\<rparr>)"

text \<open>The same part of \<open>handleSendMessage\<close> as the list of its calls in the order the
  source makes them: the three state setters, then \<open>axios.post\<close>.\<close>

datatype effect =
    SetShowGuidedTour bool
  | AppendMessage message
  | SetIsLoading bool
  | AxiosPost chat_request

definition Dashboard_handleSendMessage_effects :: "jsstring \<Rightarrow> jsstring \<Rightarrow> Dashboard \<Rightarrow> effect list" where
  "Dashboard_handleSendMessage_effects text now s =
     (if trim text = [] then []
      else [SetShowGuidedTour False,
            AppendMessage (userMessage text now),
            SetIsLoading True,
            AxiosPost (Dashboard_request text s)])"

fun perform :: "effect \<Rightarrow> Dashboard \<Rightarrow> Dashboard" where
  "perform (SetShowGuidedTour b) s = s\<lparr>showGuidedTour := b\<rparr>"
| "perform (AppendMessage m) s = s\<lparr>messages := messages s @ [m]\<rparr>"
| "perform (SetIsLoading b) s = s\<lparr>isLoading := b\<rparr>"
| "perform (AxiosPost req) s = s\<lparr>inFlight := inFlight s @ [req]\<rparr>"

text \<open>\<open>handleSendMessage\<close> from the \<open>await\<close> on, when the promise of request \<open>req\<close> has
  settled with \<open>r\<close>: the \<open>try\<close> block or the \<open>catch\<close> block, then \<open>finally\<close>.\<close>

definition Dashboard_handleSendMessage_settled ::
    "chat_request \<Rightarrow> chat_response settled \<Rightarrow> jsstring \<Rightarrow> jsstring \<Rightarrow> Dashboard \<Rightarrow> Dashboard" where
  "Dashboard_handleSendMessage_settled req r now1 now2 s =
     (let s1 = (case botMessage r of
                  Some m \<Rightarrow> s\<lparr>messages := messages s @ [m]\<rparr>
                | None \<Rightarrow> s\<lparr>messages := messages s @ [Dashboard_errorMessage now1 now2]\<rparr>)
      in s1\<lparr>isLoading := False, inFlight := remove1 req (inFlight s1)\<rparr>)"

definition Dashboard_handleSuggestionClick :: "jsstring \<Rightarrow> jsstring \<Rightarrow> Dashboard \<Rightarrow> Dashboard" where
  "Dashboard_handleSuggestionClick suggestion now s = Dashboard_handleSendMessage suggestion now s"

definition Dashboard_handleExitTour :: "Dashboard \<Rightarrow> Dashboard" where
  "Dashboard_handleExitTour s = s\<lparr>showGuidedTour := False\<rparr>"

text \<open>The sidebar's \<open>onToggle\<close> prop.\<close>

definition Dashboard_onToggle :: "Dashboard \<Rightarrow> Dashboard" where
  "Dashboard_onToggle s = s\<lparr>sidebarCollapsed := \<not> sidebarCollapsed s\<rparr>"

text \<open>\<open>newSessionId\<close> is what \<open>uuidv4()\<close> returned.\<close>

definition Dashboard_handleNewConversation :: "jsstring \<Rightarrow> Dashboard \<Rightarrow> Dashboard" where
  "Dashboard_handleNewConversation newSessionId s =
     s\<lparr>sessionId := Some newSessionId,
       localStorage := setItem storageKey newSessionId (localStorage s),
       messages := [],
       showGuidedTour := True\<rparr>"

text \<open>\<open>loadHistory\<close> from the \<open>await\<close> on. Here \<open>Fulfilled None\<close> is any falsy
  \<open>response.data\<close>, and \<open>h_messages = None\<close> a falsy \<open>messages\<close> property.\<close>

definition formatMessage :: "history_message \<Rightarrow> message" where
  "formatMessage msg =
     \<lparr>role = h_role msg, content = h_content msg, timestamp = h_timestamp msg,
      sources = h_sources msg, visualization = h_visualization msg,
      suggestions = None, isError = False\<rparr>"

definition Dashboard_loadHistory_settled :: "history_data settled \<Rightarrow> Dashboard \<Rightarrow> Dashboard" where
  "Dashboard_loadHistory_settled r s =
     (case r of
        Rejected \<Rightarrow> s
      | Fulfilled None \<Rightarrow> s
      | Fulfilled (Some d) \<Rightarrow>
          (case h_messages d of
             None \<Rightarrow> s
           | Some ms \<Rightarrow>
               if length ms > 0
               then s\<lparr>messages := map formatMessage ms, showGuidedTour := False\<rparr>
               else s))"

text \<open>The part of the markup that chooses the view: the tour, or the message bubbles with
  the loading indicator.\<close>

datatype view = TourView | TimelineView "message list" bool

definition Dashboard_render :: "Dashboard \<Rightarrow> view" where
  "Dashboard_render s =
     (if showGuidedTour s \<and> length (messages s) = 0 then TourView
      else TimelineView (messages s) (isLoading s))"

text \<open>
  React keeps the \<open>useState\<close> cells of a child while the child stays rendered at its place
  and creates them from their initial values when the child is rendered anew: after every
  handler of the host, \<open>commit\<close> mounts, keeps or unmounts the tour accordingly.
\<close>

definition commit :: "Dashboard \<Rightarrow> Dashboard" where
  "commit s =
     (case Dashboard_render s of
        TourView \<Rightarrow>
          (case guidedTour s of
             None \<Rightarrow> s\<lparr>guidedTour := Some GuidedTour_initial\<rparr>
           | Some t \<Rightarrow> s)
      | TimelineView ms l \<Rightarrow> s\<lparr>guidedTour := None\<rparr>)"

text \<open>The props the host hands to its children, with the clock reading and the UUID the
  called handler would draw.\<close>

fun Dashboard_call :: "jsstring \<Rightarrow> jsstring \<Rightarrow> callback \<Rightarrow> Dashboard \<Rightarrow> Dashboard" where
  "Dashboard_call now uuid OnExitTour s = commit (Dashboard_handleExitTour s)"
| "Dashboard_call now uuid (OnSendMessage text) s = commit (Dashboard_handleSendMessage text now s)"
| "Dashboard_call now uuid OnNewConversation s = commit (Dashboard_handleNewConversation uuid s)"

section \<open>ChatWidget.js\<close>

record ChatWidget = chat_state +
  mode :: jsstring
  availableModes :: json
  showWelcome :: bool

definition ChatWidget_initial :: "storage \<Rightarrow> ChatWidget" where
  "ChatWidget_initial store =
     \<lparr>messages = [], isLoading = False, sessionId = None, selectedModule = None,
      localStorage = store, inFlight = [],
      mode = lit ''full_overview'', availableModes = lit ''[]'', showWelcome = True\<rparr>"

definition welcomeContent :: jsstring where
  "welcomeContent =
     lit ''Welcome to the Maveric RADP Documentation Assistant.\<newline>\<newline>''
   @ lit ''**Available Interaction Modes:**\<newline>''
   @ lit ''- Full Overview - Comprehensive workflow guidance from start to finish\<newline>''
   @ lit ''- Module Deep-Dive - Detailed technical information on specific components\<newline>''
   @ lit ''- General Q&A - Direct answers to specific questions\<newline>\<newline>''
   @ lit ''**Core Platform Capabilities:**\<newline>''
   @ lit ''- Digital Twin training and RF prediction\<newline>''
   @ lit ''- UE track generation and simulation\<newline>''
   @ lit ''- Network orchestration and optimization\<newline>''
   @ lit ''- xApp/rApp algorithm development\<newline>\<newline>''
   @ lit ''Select a mode above or ask a question to begin.''"

definition welcomeMsg :: "jsstring \<Rightarrow> message" where
  "welcomeMsg now =
     \<lparr>role = Some (lit ''assistant''), content = Some welcomeContent, timestamp = Some now,
      sources = None, visualization = None, suggestions = None, isError = False\<rparr>"

definition addWelcomeMessage :: "jsstring \<Rightarrow> ChatWidget \<Rightarrow> ChatWidget" where
  "addWelcomeMessage now s = s\<lparr>messages := [welcomeMsg now]\<rparr>"

definition ChatWidget_errorMessage :: "jsstring \<Rightarrow> message" where
  "ChatWidget_errorMessage now =
     \<lparr>role = Some (lit ''assistant''),
      content = Some (lit ''An error occurred processing your request. Please try again or contact support if the issue persists.''),
      timestamp = Some now, sources = None, visualization = None, suggestions = None,
      isError = True\<rparr>"

definition ChatWidget_request :: "jsstring \<Rightarrow> ChatWidget \<Rightarrow> chat_request" where
  "ChatWidget_request text s =
     \<lparr>req_message = text, req_session_id = sessionId s,
      req_mode = mode s, req_module = selectedModule s\<rparr>"

definition ChatWidget_handleSendMessage :: "jsstring \<Rightarrow> jsstring \<Rightarrow> ChatWidget \<Rightarrow> ChatWidget" where
  "ChatWidget_handleSendMessage text now s =
     (if trim text = [] then s
      else s\<lparr>messages := messages s @ [userMessage text now],
              showWelcome := False,
              isLoading := True,
              inFlight := inFlight s @ [ChatWidget_request text s]\<rparr>)"

definition ChatWidget_handleSendMessage_settled ::
    "chat_request \<Rightarrow> chat_response settled \<Rightarrow> jsstring \<Rightarrow> ChatWidget \<Rightarrow> ChatWidget" where
  "ChatWidget_handleSendMessage_settled req r now s =
     (let s1 = (case botMessage r of
                  Some m \<Rightarrow> s\<lparr>messages := messages s @ [m]\<rparr>
                | None \<Rightarrow> s\<lparr>messages := messages s @ [ChatWidget_errorMessage now]\<rparr>)
      in s1\<lparr>isLoading := False, inFlight := remove1 req (inFlight s1)\<rparr>)"

text \<open>\<open>newMode.replace('_', ' ')\<close> replaces the first underscore only.\<close>

definition handleModeChange :: "jsstring \<Rightarrow> jsstring \<Rightarrow> ChatWidget \<Rightarrow> ChatWidget" where
  "handleModeChange newMode now s =
     s\<lparr>mode := newMode,
       messages := messages s @
         [\<lparr>role = Some (lit ''system''),
           content = Some (lit ''Mode changed to: '' @ replace_first 0x5F (lit '' '') newMode),
           timestamp = Some now,
           sources = None, visualization = None, suggestions = None, isError = False\<rparr>]\<rparr>"

definition ChatWidget_handleSuggestionClick :: "jsstring \<Rightarrow> jsstring \<Rightarrow> ChatWidget \<Rightarrow> ChatWidget" where
  "ChatWidget_handleSuggestionClick suggestion now s = ChatWidget_handleSendMessage suggestion now s"

definition ChatWidget_handleNewConversation :: "jsstring \<Rightarrow> jsstring \<Rightarrow> ChatWidget \<Rightarrow> ChatWidget" where
  "ChatWidget_handleNewConversation newSessionId now s =
     (addWelcomeMessage now
        (s\<lparr>sessionId := Some newSessionId,
           localStorage := setItem storageKey newSessionId (localStorage s),
           messages := []\<rparr>))\<lparr>showWelcome := True\<rparr>"

section \<open>Runs used in the statements\<close>

text \<open>
  One call of the Dashboard's \<open>handleSendMessage\<close> run to its end before any other
  handler runs: the text, the clock reading of the user message, how the promise settles, and
  the two clock readings of the catch block. React commits after the part before the
  \<open>await\<close> and after the continuation. A call that returns at the guard has no
  continuation.
\<close>

record send =
  send_text :: jsstring
  send_now :: jsstring
  send_result :: "chat_response settled"
  send_now1 :: jsstring
  send_now2 :: jsstring

definition Dashboard_send :: "send \<Rightarrow> Dashboard \<Rightarrow> Dashboard" where
  "Dashboard_send x s =
     (if trim (send_text x) = []
      then commit (Dashboard_handleSendMessage (send_text x) (send_now x) s)
      else commit (Dashboard_handleSendMessage_settled (Dashboard_request (send_text x) s)
             (send_result x) (send_now1 x) (send_now2 x)
             (commit (Dashboard_handleSendMessage (send_text x) (send_now x) s))))"

text \<open>
  The handlers that change the state of the mounted Dashboard, as events: a call of
  \<open>handleSendMessage\<close> (from the composer, a suggestion, the sidebar or the tour), the
  continuation of such a call when its promise settles, a new conversation, the
  continuation of \<open>loadHistory\<close>, the tour's exit, and the sidebar's toggle. React commits
  after each.
\<close>

datatype event =
    Send jsstring jsstring
  | Settled chat_request "chat_response settled" jsstring jsstring
  | NewConversation jsstring
  | HistoryLoaded "history_data settled"
  | ExitTour
  | ToggleSidebar

fun Dashboard_step :: "event \<Rightarrow> Dashboard \<Rightarrow> Dashboard" where
  "Dashboard_step (Send text now) s = commit (Dashboard_handleSendMessage text now s)"
| "Dashboard_step (Settled req r now1 now2) s =
     commit (Dashboard_handleSendMessage_settled req r now1 now2 s)"
| "Dashboard_step (NewConversation uuid) s = commit (Dashboard_handleNewConversation uuid s)"
| "Dashboard_step (HistoryLoaded r) s = commit (Dashboard_loadHistory_settled r s)"
| "Dashboard_step ExitTour s = commit (Dashboard_handleExitTour s)"
| "Dashboard_step ToggleSidebar s = commit (Dashboard_onToggle s)"

fun Dashboard_run :: "event list \<Rightarrow> Dashboard \<Rightarrow> Dashboard" where
  "Dashboard_run [] s = s"
| "Dashboard_run (e # es) s = Dashboard_run es (Dashboard_step e s)"

text \<open>The events that replace the timeline: a new conversation, and a history load that
  brings at least one message.\<close>

fun replaces :: "event \<Rightarrow> bool" where
  "replaces (NewConversation uuid) = True"
| "replaces (HistoryLoaded r) =
     (case r of
        Rejected \<Rightarrow> False
      | Fulfilled None \<Rightarrow> False
      | Fulfilled (Some d) \<Rightarrow> (case h_messages d of None \<Rightarrow> False | Some ms \<Rightarrow> ms \<noteq> []))"
| "replaces e = False"

text \<open>
  A run in which nothing replaces the timeline and no send is made while another is
  pending; the first argument is the text and clock reading of the pending send, if any.
  A send of a blank text returns at the guard and may come anywhere. The run ends with no
  send pending.
\<close>

fun sequential :: "(jsstring \<times> jsstring) option \<Rightarrow> event list \<Rightarrow> bool" where
  "sequential p [] = (p = None)"
| "sequential p (Send text now # es) =
     (if trim text = [] then sequential p es
      else p = None \<and> sequential (Some (text, now)) es)"
| "sequential p (Settled req r now1 now2 # es) = (p \<noteq> None \<and> sequential None es)"
| "sequential p (e # es) = (\<not> replaces e \<and> sequential p es)"

text \<open>The completed sends of such a run, in the order of the sends: each send paired with
  the settlement that follows it.\<close>

fun completed :: "(jsstring \<times> jsstring) option \<Rightarrow> event list \<Rightarrow> send list" where
  "completed p [] = []"
| "completed p (Send text now # es) =
     (if trim text = [] then completed p es else completed (Some (text, now)) es)"
| "completed p (Settled req r now1 now2 # es) =
     (case p of
        None \<Rightarrow> completed None es
      | Some (text, now) \<Rightarrow>
          \<lparr>send_text = text, send_now = now, send_result = r,
           send_now1 = now1, send_now2 = now2\<rparr> # completed None es)"
| "completed p (e # es) = completed p es"

text \<open>The message that ends a send: the bot message of the \<open>try\<close> block, or the error
  message of the \<open>catch\<close> block.\<close>

definition Dashboard_terminal :: "send \<Rightarrow> message" where
  "Dashboard_terminal x =
     (case botMessage (send_result x) of
        Some m \<Rightarrow> m
      | None \<Rightarrow> Dashboard_errorMessage (send_now1 x) (send_now2 x))"

definition exchange :: "send \<Rightarrow> message list" where
  "exchange x = [userMessage (send_text x) (send_now x), Dashboard_terminal x]"

text \<open>What an event appends to the timeline when it does not replace it.\<close>

fun appended :: "event \<Rightarrow> message list" where
  "appended (Send text now) = (if trim text = [] then [] else [userMessage text now])"
| "appended (Settled req r now1 now2) =
     [case botMessage r of Some m \<Rightarrow> m | None \<Rightarrow> Dashboard_errorMessage now1 now2]"
| "appended e = []"

text \<open>Two sends of the text \<open>Hello\<close>: the service answers \<open>Hi\<close>; the transport fails.\<close>

definition helloAnswered :: send where
  "helloAnswered =
     \<lparr>send_text = lit ''Hello'', send_now = lit ''2025-01-01T00:00:00.000Z'',
      send_result = Fulfilled (Some \<lparr>response = Some (lit ''Hi''),
        resp_timestamp = Some (lit ''2025-01-01T00:00:01.000Z''), resp_sources = None,
        resp_visualization = None, resp_suggestions = Some [lit ''Tell me more'']\<rparr>),
      send_now1 = lit ''2025-01-01T00:00:01.500Z'', send_now2 = lit ''2025-01-01T00:00:01.501Z''\<rparr>"

definition helloFailed :: send where
  "helloFailed =
     \<lparr>send_text = lit ''Hello'', send_now = lit ''2025-01-01T00:00:05.000Z'',
      send_result = Rejected,
      send_now1 = lit ''2025-01-01T00:00:06.000Z'', send_now2 = lit ''2025-01-01T00:00:06.001Z''\<rparr>"

text \<open>The Dashboard after the answered send, waiting for the answer to a second
  \<open>Hello\<close>.\<close>

definition awaitingAnswer :: Dashboard where
  "awaitingAnswer =
     commit (Dashboard_handleSendMessage (lit ''Hello'') (lit ''2025-01-01T00:00:10.000Z'')
       (Dashboard_send helloAnswered (Dashboard_initial [])))"

text \<open>The two sends above, one after the other, with the sidebar toggled while the first
  is pending, and the tour's exit and a failed history load before the second.\<close>

definition quietRun :: "event list" where
  "quietRun =
     [Send (lit ''Hello'') (lit ''2025-01-01T00:00:00.000Z''),
      ToggleSidebar,
      Settled (Dashboard_request (lit ''Hello'') (Dashboard_initial []))
        (send_result helloAnswered)
        (lit ''2025-01-01T00:00:01.500Z'') (lit ''2025-01-01T00:00:01.501Z''),
      ExitTour,
      HistoryLoaded Rejected,
      Send (lit ''Hello'') (lit ''2025-01-01T00:00:05.000Z''),
      Settled (Dashboard_request (lit ''Hello'') (Dashboard_initial [])) Rejected
        (lit ''2025-01-01T00:00:06.000Z'') (lit ''2025-01-01T00:00:06.001Z'')]"

text \<open>One answered send with a new conversation started while it is pending.\<close>

definition resetWhilePending :: "event list" where
  "resetWhilePending =
     [Send (lit ''Hello'') (lit ''2025-01-01T00:00:00.000Z''),
      NewConversation (lit ''1b4e28ba-2fa1-41d2-883f-0016d3cca427''),
      Settled (Dashboard_request (lit ''Hello'') (Dashboard_initial []))
        (send_result helloAnswered)
        (lit ''2025-01-01T00:00:01.500Z'') (lit ''2025-01-01T00:00:01.501Z'')]"

text \<open>One answered send made while the history of a resumed session is still being
  fetched; the history, of one earlier question and its answer, arrives while the send is
  pending.\<close>

definition earlierHistory :: history_data where
  "earlierHistory =
     \<lparr>h_messages = Some
        [\<lparr>h_role = Some (lit ''user''), h_content = Some (lit ''Earlier question''),
          h_timestamp = Some (lit ''2024-12-31T10:00:00.000Z''), h_sources = None,
          h_visualization = None\<rparr>,
         \<lparr>h_role = Some (lit ''assistant''), h_content = Some (lit ''Earlier answer''),
          h_timestamp = Some (lit ''2024-12-31T10:00:01.000Z''), h_sources = None,
          h_visualization = None\<rparr>]\<rparr>"

definition historyWhilePending :: "event list" where
  "historyWhilePending =
     [Send (lit ''Hello'') (lit ''2025-01-01T00:00:00.000Z''),
      HistoryLoaded (Fulfilled (Some earlierHistory)),
      Settled (Dashboard_request (lit ''Hello'') (Dashboard_initial []))
        (send_result helloAnswered)
        (lit ''2025-01-01T00:00:01.500Z'') (lit ''2025-01-01T00:00:01.501Z'')]"

text \<open>A response whose data is an object with none of the properties: the answer
  \<open>{}\<close>.\<close>

definition emptyObject :: chat_response where
  "emptyObject =
     \<lparr>response = None, resp_timestamp = None, resp_sources = None,
      resp_visualization = None, resp_suggestions = None\<rparr>"

text \<open>A stored history of one message.\<close>

definition historyOfOne :: history_data where
  "historyOfOne =
     \<lparr>h_messages = Some [\<lparr>h_role = Some (lit ''user''), h_content = Some (lit ''Hello''),
        h_timestamp = Some (lit ''2025-01-01T00:00:00.000Z''), h_sources = None,
        h_visualization = None\<rparr>]\<rparr>"

section \<open>Facts about the building blocks\<close>

lemma length_stages: "length stages = 5"
  by (simp add: stages_def)

lemma trim_Hello: "trim (lit ''Hello'') \<noteq> []"
  by (simp add: lit_def trim_def isWhiteSpace_def)

lemma getItem_setItem:
  "getItem k' (setItem k v st) = (if k' = k then Some v else getItem k' st)"
  by (induction st) (auto simp: getItem_def)

lemma botMessage_None: "(botMessage r = None) = (r = Rejected \<or> r = Fulfilled None)"
  by (auto simp: botMessage_def split: settled.splits option.splits)

lemma botMessage_Some:
  "botMessage r = Some m \<Longrightarrow> role m = Some (lit ''assistant'') \<and> \<not> isError m"
  by (auto simp: botMessage_def split: settled.splits option.splits)

lemma Dashboard_terminal_role:
  "role (Dashboard_terminal x) = Some (lit ''assistant'')"
  "isError (Dashboard_terminal x) = (botMessage (send_result x) = None)"
  by (auto simp: Dashboard_terminal_def Dashboard_errorMessage_def dest: botMessage_Some
      split: option.splits)

lemma commit_frame:
  "messages (commit s) = messages s"
  "isLoading (commit s) = isLoading s"
  "inFlight (commit s) = inFlight s"
  "sessionId (commit s) = sessionId s"
  "selectedModule (commit s) = selectedModule s"
  "localStorage (commit s) = localStorage s"
  "showGuidedTour (commit s) = showGuidedTour s"
  by (simp_all add: commit_def split: view.splits option.splits)

lemma Dashboard_settled_messages:
  "messages (Dashboard_handleSendMessage_settled req r now1 now2 s)
     = messages s @ [case botMessage r of Some m \<Rightarrow> m | None \<Rightarrow> Dashboard_errorMessage now1 now2]"
  by (simp add: Dashboard_handleSendMessage_settled_def Let_def split: option.splits)

lemma ChatWidget_settled_messages:
  "messages (ChatWidget_handleSendMessage_settled req r now c)
     = messages c @ [case botMessage r of Some m \<Rightarrow> m | None \<Rightarrow> ChatWidget_errorMessage now]"
  by (simp add: ChatWidget_handleSendMessage_settled_def Let_def split: option.splits)

lemma Dashboard_send_messages:
  "trim (send_text x) \<noteq> [] \<Longrightarrow> messages (Dashboard_send x s) = messages s @ exchange x"
  by (simp add: Dashboard_send_def commit_frame Dashboard_settled_messages
      Dashboard_handleSendMessage_def exchange_def Dashboard_terminal_def)

lemma Dashboard_handleSendMessage_performs:
  "Dashboard_handleSendMessage msg now s
     = foldl (\<lambda>s e. perform e s) s (Dashboard_handleSendMessage_effects msg now s)"
  by (simp add: Dashboard_handleSendMessage_def Dashboard_handleSendMessage_effects_def)

lemma Dashboard_step_appends:
  "\<not> replaces e \<Longrightarrow> messages (Dashboard_step e s) = messages s @ appended e"
proof (cases e)
  case (HistoryLoaded r)
  assume "\<not> replaces e"
  with HistoryLoaded show ?thesis
    by (simp add: commit_frame Dashboard_loadHistory_settled_def
        split: settled.splits option.splits)
qed (simp_all add: commit_frame Dashboard_handleSendMessage_def Dashboard_settled_messages
      Dashboard_handleExitTour_def Dashboard_onToggle_def)

lemma Dashboard_run_appends:
  "\<forall>e\<in>set es. \<not> replaces e \<Longrightarrow>
   messages (Dashboard_run es s) = messages s @ concat (map appended es)"
  by (induction es arbitrary: s) (simp_all add: Dashboard_step_appends)

lemma sequential_no_replaces: "sequential p es \<Longrightarrow> \<forall>e\<in>set es. \<not> replaces e"
  by (induction p es rule: sequential.induct) (auto split: if_splits)

lemma sequential_appended:
  "sequential p es \<Longrightarrow>
   (case p of None \<Rightarrow> [] | Some (t, n) \<Rightarrow> [userMessage t n]) @ concat (map appended es)
     = concat (map exchange (completed p es))"
  by (induction p es rule: sequential.induct)
     (auto simp: exchange_def Dashboard_terminal_def split: if_splits option.splits)

lemma Dashboard_run_sequential:
  "sequential None es \<Longrightarrow>
   messages (Dashboard_run es s) = messages s @ concat (map exchange (completed None es))"
  using Dashboard_run_appends [OF sequential_no_replaces, of None es s]
        sequential_appended [of None es]
  by simp

lemma length_concat_exchange: "length (concat (map exchange xs)) = 2 * length xs"
  by (induction xs) (simp_all add: exchange_def)

lemma concat_exchange_nth:
  "k < length xs \<Longrightarrow>
   concat (map exchange xs) ! (2 * k) = userMessage (send_text (xs ! k)) (send_now (xs ! k))
   \<and> concat (map exchange xs) ! (2 * k + 1) = Dashboard_terminal (xs ! k)"
proof (induction xs arbitrary: k)
  case Nil
  then show ?case by simp
next
  case (Cons x xs)
  show ?case
  proof (cases k)
    case 0
    then show ?thesis by (simp add: exchange_def)
  next
    case (Suc j)
    with Cons.prems have "j < length xs" by simp
    from Cons.IH [OF this] Suc show ?thesis by (simp add: exchange_def)
  qed
qed

section \<open>The tour state machine\<close>

text \<open>
  Claim C5. For every current stage \<open>i\<close> and every requested stage \<open>j\<close>, a click on stage
  \<open>j\<close> of the progress tracker moves the tour to \<open>j\<close> if and only if \<open>j \<le> i\<close> or
  \<open>j = i + 1\<close>; for any other \<open>j\<close> the state of the tour is unchanged. No callback is
  called either way.
\<close>

theorem handleStageClick_jump:
  "(currentStage (fst (handleStageClick j t)) = j) = (j \<le> currentStage t \<or> j = currentStage t + 1)
   \<and> (\<not> (j \<le> currentStage t \<or> j = currentStage t + 1) \<longrightarrow> fst (handleStageClick j t) = t)
   \<and> tourStarted (fst (handleStageClick j t)) = tourStarted t
   \<and> snd (handleStageClick j t) = []"
  by (auto simp: handleStageClick_def)

theorem handleStageClick_jump_witness:
  "\<not> ((4::nat) \<le> 2 \<or> (4::nat) = 2 + 1)
   \<and> fst (handleStageClick 4 \<lparr>currentStage = 2, tourStarted = True\<rparr>)
       = \<lparr>currentStage = 2, tourStarted = True\<rparr>
   \<and> currentStage (fst (handleStageClick 3 \<lparr>currentStage = 2, tourStarted = True\<rparr>)) = 3
   \<and> currentStage (fst (handleStageClick 0 \<lparr>currentStage = 2, tourStarted = True\<rparr>)) = 0"
  using handleStageClick_jump [of 4 "\<lparr>currentStage = 2, tourStarted = True\<rparr>"]
        handleStageClick_jump [of 3 "\<lparr>currentStage = 2, tourStarted = True\<rparr>"]
        handleStageClick_jump [of 0 "\<lparr>currentStage = 2, tourStarted = True\<rparr>"]
  by simp

text \<open>
  Claim C6. The continue button moves stage \<open>i\<close> to stage \<open>i + 1\<close> for every
  \<open>i < N - 1\<close> and calls nothing; on the last stage \<open>N - 1\<close> it leaves the stage where it
  is and calls the exit callback exactly once. On the script of five stages, start and four
  continues show the stages 0 to 4 with no callback, and the fifth continue calls the exit
  callback once. The Dashboard's exit callback hides the tour, so the timeline is rendered.
\<close>

theorem handleContinue_advance_or_exit:
  "(currentStage t + 1 < length stages \<longrightarrow>
      handleContinue t = (t\<lparr>currentStage := currentStage t + 1\<rparr>, []))
   \<and> (currentStage t + 1 = length stages \<longrightarrow> handleContinue t = (t, [OnExitTour]))
   \<and> map (\<lambda>n. (GuidedTour_render (fst (continues n (handleStartTour GuidedTour_initial))),
               snd (continues n (handleStartTour GuidedTour_initial)))) [0, 1, 2, 3, 4, 5]
       = [(Stage 0, []), (Stage 1, []), (Stage 2, []), (Stage 3, []), (Stage 4, []),
          (Stage 4, [OnExitTour])]
   \<and> Dashboard_render (Dashboard_handleExitTour s) = TimelineView (messages s) (isLoading s)"
proof (intro conjI impI)
  assume "currentStage t + 1 < length stages"
  then show "handleContinue t = (t\<lparr>currentStage := currentStage t + 1\<rparr>, [])"
    by (simp add: handleContinue_def)
next
  assume "currentStage t + 1 = length stages"
  then show "handleContinue t = (t, [OnExitTour])"
    by (simp add: handleContinue_def)
next
  show "map (\<lambda>n. (GuidedTour_render (fst (continues n (handleStartTour GuidedTour_initial))),
               snd (continues n (handleStartTour GuidedTour_initial)))) [0, 1, 2, 3, 4, 5]
       = [(Stage 0, []), (Stage 1, []), (Stage 2, []), (Stage 3, []), (Stage 4, []),
          (Stage 4, [OnExitTour])]"
    by (simp add: handleStartTour_def GuidedTour_initial_def GuidedTour_render_def
        handleContinue_def length_stages numeral_eq_Suc)
next
  show "Dashboard_render (Dashboard_handleExitTour s) = TimelineView (messages s) (isLoading s)"
    by (simp add: Dashboard_render_def Dashboard_handleExitTour_def)
qed

theorem handleContinue_advance_or_exit_witness:
  "currentStage \<lparr>currentStage = 1, tourStarted = True\<rparr> + 1 < length stages
   \<and> handleContinue \<lparr>currentStage = 1, tourStarted = True\<rparr>
       = (\<lparr>currentStage = 2, tourStarted = True\<rparr>, [])
   \<and> currentStage \<lparr>currentStage = 4, tourStarted = True\<rparr> + 1 = length stages
   \<and> handleContinue \<lparr>currentStage = 4, tourStarted = True\<rparr>
       = (\<lparr>currentStage = 4, tourStarted = True\<rparr>, [OnExitTour])"
  using handleContinue_advance_or_exit [of "\<lparr>currentStage = 1, tourStarted = True\<rparr>"]
        handleContinue_advance_or_exit [of "\<lparr>currentStage = 4, tourStarted = True\<rparr>"]
  by (simp add: length_stages)

section \<open>The send path\<close>

text \<open>
  Claim C1, as amended. For every non-empty text submitted through the Dashboard's send path
  (non-empty as the path validates it: after trimming), a user-role message with that text
  is appended to the timeline immediately: the append comes before \<open>axios.post\<close> among the
  calls of the handler, and the state the handler leaves is the one those calls produce. The
  continuation appends exactly one terminal assistant message, flagged \<open>isError\<close> exactly
  when the request failed (the promise rejected or the response carried no data). So after
  the \<open>N\<close> completed sends of a run in which no new conversation and no history load
  replaces the timeline and no send is made while another is pending, the timeline is what
  it held before, unchanged, followed by exactly \<open>2N\<close> entries, user and assistant in
  turn, in the order of the sends.
\<close>

theorem send_appends_user_then_terminal:
  "(trim msg \<noteq> [] \<longrightarrow>
      (\<exists>u. messages (Dashboard_handleSendMessage msg now s) = messages s @ [u]
           \<and> role u = Some (lit ''user'') \<and> content u = Some msg \<and> timestamp u = Some now
           \<and> \<not> isError u)
      \<and> (\<exists>pre post u. Dashboard_handleSendMessage_effects msg now s = pre @ AppendMessage u # post
           \<and> role u = Some (lit ''user'') \<and> content u = Some msg
           \<and> (\<forall>q. AxiosPost q \<notin> set pre)
           \<and> AxiosPost (Dashboard_request msg s) \<in> set post))
   \<and> Dashboard_handleSendMessage msg now s
       = foldl (\<lambda>s e. perform e s) s (Dashboard_handleSendMessage_effects msg now s)
   \<and> (\<exists>a. messages (Dashboard_handleSendMessage_settled req r now1 now2 s) = messages s @ [a]
          \<and> role a = Some (lit ''assistant'')
          \<and> isError a = (r = Rejected \<or> r = Fulfilled None))
   \<and> (sequential None es \<longrightarrow>
        length (messages (Dashboard_run es s))
          = length (messages s) + 2 * length (completed None es)
        \<and> take (length (messages s)) (messages (Dashboard_run es s)) = messages s
        \<and> (\<forall>k<length (completed None es).
              role (messages (Dashboard_run es s) ! (length (messages s) + 2 * k))
                = Some (lit ''user'')
              \<and> content (messages (Dashboard_run es s) ! (length (messages s) + 2 * k))
                  = Some (send_text (completed None es ! k))
              \<and> timestamp (messages (Dashboard_run es s) ! (length (messages s) + 2 * k))
                  = Some (send_now (completed None es ! k))
              \<and> role (messages (Dashboard_run es s) ! (length (messages s) + 2 * k + 1))
                  = Some (lit ''assistant'')
              \<and> isError (messages (Dashboard_run es s) ! (length (messages s) + 2 * k + 1))
                  = (send_result (completed None es ! k) = Rejected
                     \<or> send_result (completed None es ! k) = Fulfilled None)))"
proof (intro conjI impI)
  assume "trim msg \<noteq> []"
  then show "\<exists>u. messages (Dashboard_handleSendMessage msg now s) = messages s @ [u]
           \<and> role u = Some (lit ''user'') \<and> content u = Some msg \<and> timestamp u = Some now
           \<and> \<not> isError u"
    by (simp add: Dashboard_handleSendMessage_def userMessage_def)
next
  assume nb: "trim msg \<noteq> []"
  have "Dashboard_handleSendMessage_effects msg now s
      = [SetShowGuidedTour False] @ AppendMessage (userMessage msg now)
          # [SetIsLoading True, AxiosPost (Dashboard_request msg s)]"
    using nb by (simp add: Dashboard_handleSendMessage_effects_def)
  moreover have "role (userMessage msg now) = Some (lit ''user'')
      \<and> content (userMessage msg now) = Some msg"
    by (simp add: userMessage_def)
  moreover have "\<forall>q. AxiosPost q \<notin> set [SetShowGuidedTour False]"
    by simp
  moreover have "AxiosPost (Dashboard_request msg s)
      \<in> set [SetIsLoading True, AxiosPost (Dashboard_request msg s)]"
    by simp
  ultimately show "\<exists>pre post u.
      Dashboard_handleSendMessage_effects msg now s = pre @ AppendMessage u # post
      \<and> role u = Some (lit ''user'') \<and> content u = Some msg
      \<and> (\<forall>q. AxiosPost q \<notin> set pre)
      \<and> AxiosPost (Dashboard_request msg s) \<in> set post"
    by blast
next
  show "Dashboard_handleSendMessage msg now s
       = foldl (\<lambda>s e. perform e s) s (Dashboard_handleSendMessage_effects msg now s)"
    by (rule Dashboard_handleSendMessage_performs)
next
  have "\<exists>a. messages (Dashboard_handleSendMessage_settled req r now1 now2 s) = messages s @ [a]
          \<and> role a = Some (lit ''assistant'')
          \<and> isError a = (botMessage r = None)"
    by (cases "botMessage r")
       (auto simp: Dashboard_settled_messages Dashboard_errorMessage_def dest: botMessage_Some)
  then show "\<exists>a. messages (Dashboard_handleSendMessage_settled req r now1 now2 s) = messages s @ [a]
          \<and> role a = Some (lit ''assistant'')
          \<and> isError a = (r = Rejected \<or> r = Fulfilled None)"
    by (simp only: botMessage_None)
next
  assume seq: "sequential None es"
  note eq = Dashboard_run_sequential [OF seq, of s]
  show "length (messages (Dashboard_run es s))
      = length (messages s) + 2 * length (completed None es)"
    by (simp add: eq length_concat_exchange)
  show "take (length (messages s)) (messages (Dashboard_run es s)) = messages s"
    by (simp add: eq)
  show "\<forall>k<length (completed None es).
              role (messages (Dashboard_run es s) ! (length (messages s) + 2 * k))
                = Some (lit ''user'')
              \<and> content (messages (Dashboard_run es s) ! (length (messages s) + 2 * k))
                  = Some (send_text (completed None es ! k))
              \<and> timestamp (messages (Dashboard_run es s) ! (length (messages s) + 2 * k))
                  = Some (send_now (completed None es ! k))
              \<and> role (messages (Dashboard_run es s) ! (length (messages s) + 2 * k + 1))
                  = Some (lit ''assistant'')
              \<and> isError (messages (Dashboard_run es s) ! (length (messages s) + 2 * k + 1))
                  = (send_result (completed None es ! k) = Rejected
                     \<or> send_result (completed None es ! k) = Fulfilled None)"
  proof (intro allI impI)
    fix k assume k: "k < length (completed None es)"
    have a: "messages (Dashboard_run es s) ! (length (messages s) + 2 * k)
        = concat (map exchange (completed None es)) ! (2 * k)"
      by (simp add: eq nth_append)
    have b: "messages (Dashboard_run es s) ! (length (messages s) + 2 * k + 1)
        = concat (map exchange (completed None es)) ! (2 * k + 1)"
      by (simp add: eq nth_append)
    from concat_exchange_nth [OF k] a b
    show "role (messages (Dashboard_run es s) ! (length (messages s) + 2 * k))
                = Some (lit ''user'')
              \<and> content (messages (Dashboard_run es s) ! (length (messages s) + 2 * k))
                  = Some (send_text (completed None es ! k))
              \<and> timestamp (messages (Dashboard_run es s) ! (length (messages s) + 2 * k))
                  = Some (send_now (completed None es ! k))
              \<and> role (messages (Dashboard_run es s) ! (length (messages s) + 2 * k + 1))
                  = Some (lit ''assistant'')
              \<and> isError (messages (Dashboard_run es s) ! (length (messages s) + 2 * k + 1))
                  = (send_result (completed None es ! k) = Rejected
                     \<or> send_result (completed None es ! k) = Fulfilled None)"
      by (simp add: Dashboard_terminal_role botMessage_None userMessage_def)
  qed
qed

theorem send_appends_user_then_terminal_witness:
  "trim (lit ''Hello'') \<noteq> []
   \<and> role (last (messages (Dashboard_handleSendMessage (lit ''Hello'')
        (lit ''2025-01-01T00:00:00.000Z'') (Dashboard_initial [])))) = Some (lit ''user'')
   \<and> sequential None quietRun
   \<and> length (messages (Dashboard_run quietRun (Dashboard_initial []))) = 4
   \<and> (1::nat) < length (completed None quietRun)
   \<and> role (messages (Dashboard_run quietRun (Dashboard_initial [])) ! 2) = Some (lit ''user'')
   \<and> content (messages (Dashboard_run quietRun (Dashboard_initial [])) ! 2) = Some (lit ''Hello'')
   \<and> role (messages (Dashboard_run quietRun (Dashboard_initial [])) ! 3) = Some (lit ''assistant'')
   \<and> isError (messages (Dashboard_run quietRun (Dashboard_initial [])) ! 3)"
proof -
  have seq: "sequential None quietRun"
    by (simp add: quietRun_def trim_Hello)
  have runs: "completed None quietRun = [helloAnswered, helloFailed]"
    by (simp add: quietRun_def trim_Hello helloAnswered_def helloFailed_def)
  have m0: "messages (Dashboard_initial []) = []"
    by (simp add: Dashboard_initial_def)
  note inst = send_appends_user_then_terminal
    [where msg = "lit ''Hello''" and now = "lit ''2025-01-01T00:00:00.000Z''"
       and s = "Dashboard_initial []" and es = quietRun]
  from inst trim_Hello
  have "\<exists>u. messages (Dashboard_handleSendMessage (lit ''Hello'')
        (lit ''2025-01-01T00:00:00.000Z'') (Dashboard_initial [])) = messages (Dashboard_initial []) @ [u]
      \<and> role u = Some (lit ''user'')"
    by blast
  then have first: "role (last (messages (Dashboard_handleSendMessage (lit ''Hello'')
        (lit ''2025-01-01T00:00:00.000Z'') (Dashboard_initial [])))) = Some (lit ''user'')"
    by auto
  from inst seq
  have len: "length (messages (Dashboard_run quietRun (Dashboard_initial []))) = 4"
    by (simp add: m0 runs)
  from inst seq
  have "\<forall>k<length (completed None quietRun).
      role (messages (Dashboard_run quietRun (Dashboard_initial []))
            ! (length (messages (Dashboard_initial [])) + 2 * k)) = Some (lit ''user'')
      \<and> content (messages (Dashboard_run quietRun (Dashboard_initial []))
            ! (length (messages (Dashboard_initial [])) + 2 * k))
          = Some (send_text (completed None quietRun ! k))
      \<and> role (messages (Dashboard_run quietRun (Dashboard_initial []))
            ! (length (messages (Dashboard_initial [])) + 2 * k + 1)) = Some (lit ''assistant'')
      \<and> isError (messages (Dashboard_run quietRun (Dashboard_initial []))
            ! (length (messages (Dashboard_initial [])) + 2 * k + 1))
          = (send_result (completed None quietRun ! k) = Rejected
             \<or> send_result (completed None quietRun ! k) = Fulfilled None)"
    by blast
  then have k1: "role (messages (Dashboard_run quietRun (Dashboard_initial [])) ! 2) = Some (lit ''user'')
      \<and> content (messages (Dashboard_run quietRun (Dashboard_initial [])) ! 2) = Some (lit ''Hello'')
      \<and> role (messages (Dashboard_run quietRun (Dashboard_initial [])) ! 3) = Some (lit ''assistant'')
      \<and> isError (messages (Dashboard_run quietRun (Dashboard_initial [])) ! 3)"
    by (auto dest!: spec [of _ 1] simp: m0 runs helloFailed_def)
  from seq first len k1 trim_Hello runs show ?thesis by simp
qed

text \<open>
  Two runs of one answered send each. A new conversation started while the send is pending
  empties the timeline, and the answer is then appended to the empty timeline: after the
  one completed send the timeline holds the answer alone. A history load that arrives while
  the send is pending replaces the timeline, the user message with it: the timeline ends as
  the two stored messages followed by the answer.
\<close>

theorem replaced_while_pending_counterexample:
  "map content (messages (Dashboard_run resetWhilePending (Dashboard_initial [])))
     = [Some (lit ''Hi'')]
   \<and> map role (messages (Dashboard_run resetWhilePending (Dashboard_initial [])))
     = [Some (lit ''assistant'')]
   \<and> map content (messages (Dashboard_run historyWhilePending (Dashboard_initial [])))
     = [Some (lit ''Earlier question''), Some (lit ''Earlier answer''), Some (lit ''Hi'')]
   \<and> map role (messages (Dashboard_run historyWhilePending (Dashboard_initial [])))
     = [Some (lit ''user''), Some (lit ''assistant''), Some (lit ''assistant'')]"
  by (simp add: resetWhilePending_def historyWhilePending_def earlierHistory_def
      helloAnswered_def commit_frame Dashboard_settled_messages botMessage_def
      Dashboard_handleNewConversation_def Dashboard_loadHistory_settled_def formatMessage_def)

text \<open>
  Claim C3. A send of a text that passes the guard sets the loading flag in both hosts, and
  the continuation clears it however the promise settled (bot message, rejected promise,
  exception in the \<open>try\<close> block), so the flag is false after every send; it is false in the
  initial state, and a send run to its end from a state where it is false leaves it false.
\<close>

theorem loading_flag_released:
  "(trim msg \<noteq> [] \<longrightarrow>
      isLoading (Dashboard_handleSendMessage msg now s)
      \<and> isLoading (ChatWidget_handleSendMessage msg now c))
   \<and> \<not> isLoading (Dashboard_handleSendMessage_settled req r now1 now2 s')
   \<and> \<not> isLoading (ChatWidget_handleSendMessage_settled req r now1 c')
   \<and> (\<not> isLoading s \<longrightarrow> \<not> isLoading (Dashboard_send x s))
   \<and> \<not> isLoading (Dashboard_initial store) \<and> \<not> isLoading (ChatWidget_initial store)"
  by (auto simp: Dashboard_handleSendMessage_def ChatWidget_handleSendMessage_def
      Dashboard_handleSendMessage_settled_def ChatWidget_handleSendMessage_settled_def
      Dashboard_send_def Dashboard_initial_def ChatWidget_initial_def commit_frame Let_def
      split: option.splits)

theorem loading_flag_released_witness:
  "trim (lit ''Hello'') \<noteq> []
   \<and> isLoading (Dashboard_handleSendMessage (lit ''Hello'') (lit ''2025-01-01T00:00:00.000Z'')
        (Dashboard_initial []))
   \<and> isLoading (ChatWidget_handleSendMessage (lit ''Hello'') (lit ''2025-01-01T00:00:00.000Z'')
        (ChatWidget_initial []))
   \<and> \<not> isLoading (Dashboard_initial [])
   \<and> \<not> isLoading (Dashboard_send helloAnswered (Dashboard_initial []))
   \<and> \<not> isLoading (Dashboard_send helloFailed (Dashboard_initial []))"
  using loading_flag_released [where msg = "lit ''Hello''"
      and now = "lit ''2025-01-01T00:00:00.000Z''"
      and s = "Dashboard_initial []" and c = "ChatWidget_initial []" and x = helloAnswered
      and store = "[]"]
    loading_flag_released [where s = "Dashboard_initial []" and x = helloFailed and store = "[]"]
    trim_Hello
  by simp

text \<open>
  Claim C4. The claim says that while the loading flag is held no user action can post a
  second request. The composer keeps to that (its submit handler tests the flag); the
  suggestion buttons and the sidebar shortcuts call \<open>handleSendMessage\<close> with no test.
  In the Dashboard that waits for the answer to its second send, the composer calls nothing,
  while a click on the suggestion of the first answer, or on the sidebar's API entry, posts a
  second request; the timeline then holds two user messages in a row.
\<close>

theorem second_request_while_loading:
  "isLoading awaitingAnswer
   \<and> length (inFlight awaitingAnswer) = 1
   \<and> snd (handleSubmit (isLoading awaitingAnswer) \<lparr>message = lit ''Hello'', isFocused = True\<rparr>) = []
   \<and> suggestions (messages awaitingAnswer ! 1) = Some [lit ''Tell me more'']
   \<and> length (inFlight (Dashboard_handleSuggestionClick (lit ''Tell me more'')
        (lit ''2025-01-01T00:00:11.000Z'') awaitingAnswer)) = 2
   \<and> map (\<lambda>c. length (inFlight (Dashboard_call (lit ''2025-01-01T00:00:11.000Z'')
        (lit ''1b4e28ba-2fa1-41d2-883f-0016d3cca427'') c awaitingAnswer)))
        (handleNavigation (lit ''api'')) = [2]
   \<and> map role (messages (Dashboard_handleSuggestionClick (lit ''Tell me more'')
        (lit ''2025-01-01T00:00:11.000Z'') awaitingAnswer))
       = [Some (lit ''user''), Some (lit ''assistant''), Some (lit ''user''), Some (lit ''user'')]"
  by (simp add: awaitingAnswer_def Dashboard_send_def helloAnswered_def
      Dashboard_handleSendMessage_def Dashboard_handleSendMessage_settled_def
      Dashboard_request_def botMessage_def Dashboard_initial_def handleSubmit_def
      Dashboard_handleSuggestionClick_def handleNavigation_def commit_def Dashboard_render_def
      userMessage_def trim_def isWhiteSpace_def lit_def Let_def)

text \<open>
  Claim C7, as amended. Every send failure that reaches the catch block (a transport
  failure or a service failure, which reject the promise, or a response with no data)
  appends exactly one assistant message flagged \<open>isError\<close>, its timestamp a reading of the
  local clock at failure time; a response whose data lacks properties is not taken for a
  failure and appends an assistant message that is not flagged. In the Dashboard the body
  is the fixed remediation script followed by a clock reading taken at failure time, the
  same for every failure apart from that reading; in the ChatWidget the body is one fixed
  sentence, the same for every failure.
\<close>

theorem failure_appends_error_message:
  "(botMessage r = None) = (r = Rejected \<or> r = Fulfilled None)
   \<and> (botMessage r = None \<longrightarrow>
        messages (Dashboard_handleSendMessage_settled req r now1 now2 s)
          = messages s @ [Dashboard_errorMessage now1 now2]
        \<and> messages (ChatWidget_handleSendMessage_settled req r now c)
          = messages c @ [ChatWidget_errorMessage now])
   \<and> role (Dashboard_errorMessage now1 now2) = Some (lit ''assistant'')
   \<and> isError (Dashboard_errorMessage now1 now2)
   \<and> timestamp (Dashboard_errorMessage now1 now2) = Some now2
   \<and> content (Dashboard_errorMessage now1 now2)
       = Some (Dashboard_errorScript @ now1 @ lit ''*'')
   \<and> (content (Dashboard_errorMessage now1 now2) = content (Dashboard_errorMessage now1' now2'))
       = (now1 = now1')
   \<and> role (ChatWidget_errorMessage now) = Some (lit ''assistant'')
   \<and> isError (ChatWidget_errorMessage now)
   \<and> timestamp (ChatWidget_errorMessage now) = Some now
   \<and> content (ChatWidget_errorMessage now) = content (ChatWidget_errorMessage now')
   \<and> (\<exists>m. messages (Dashboard_handleSendMessage_settled req (Fulfilled (Some d)) now1 now2 s)
            = messages s @ [m]
          \<and> messages (ChatWidget_handleSendMessage_settled req (Fulfilled (Some d)) now c)
            = messages c @ [m]
          \<and> role m = Some (lit ''assistant'') \<and> \<not> isError m
          \<and> content m = response d \<and> timestamp m = resp_timestamp d)"
proof -
  have settled: "botMessage r = None \<longrightarrow>
        messages (Dashboard_handleSendMessage_settled req r now1 now2 s)
          = messages s @ [Dashboard_errorMessage now1 now2]
        \<and> messages (ChatWidget_handleSendMessage_settled req r now c)
          = messages c @ [ChatWidget_errorMessage now]"
    by (simp add: Dashboard_settled_messages ChatWidget_settled_messages)
  have dashboard: "role (Dashboard_errorMessage now1 now2) = Some (lit ''assistant'')
      \<and> isError (Dashboard_errorMessage now1 now2)
      \<and> timestamp (Dashboard_errorMessage now1 now2) = Some now2
      \<and> content (Dashboard_errorMessage now1 now2) = Some (Dashboard_errorScript @ now1 @ lit ''*'')
      \<and> (content (Dashboard_errorMessage now1 now2) = content (Dashboard_errorMessage now1' now2'))
          = (now1 = now1')"
    by (simp add: Dashboard_errorMessage_def Dashboard_errorContent_def)
  have widget: "role (ChatWidget_errorMessage now) = Some (lit ''assistant'')
      \<and> isError (ChatWidget_errorMessage now)
      \<and> timestamp (ChatWidget_errorMessage now) = Some now
      \<and> content (ChatWidget_errorMessage now) = content (ChatWidget_errorMessage now')"
    by (simp add: ChatWidget_errorMessage_def)
  have answered: "\<exists>m. messages (Dashboard_handleSendMessage_settled req (Fulfilled (Some d)) now1 now2 s)
            = messages s @ [m]
          \<and> messages (ChatWidget_handleSendMessage_settled req (Fulfilled (Some d)) now c)
            = messages c @ [m]
          \<and> role m = Some (lit ''assistant'') \<and> \<not> isError m
          \<and> content m = response d \<and> timestamp m = resp_timestamp d"
    by (simp add: Dashboard_settled_messages ChatWidget_settled_messages botMessage_def)
  from botMessage_None [of r] settled dashboard widget answered show ?thesis
    by blast
qed

theorem failure_appends_error_message_witness:
  "botMessage Rejected = None
   \<and> messages (Dashboard_handleSendMessage_settled
        (Dashboard_request (lit ''Hello'') (Dashboard_initial [])) Rejected
        (lit ''2025-01-01T00:00:06.000Z'') (lit ''2025-01-01T00:00:06.001Z'')
        (Dashboard_initial []))
       = messages (Dashboard_initial [])
         @ [Dashboard_errorMessage (lit ''2025-01-01T00:00:06.000Z'') (lit ''2025-01-01T00:00:06.001Z'')]
   \<and> botMessage (Fulfilled None) = None
   \<and> messages (ChatWidget_handleSendMessage_settled
        (ChatWidget_request (lit ''Hello'') (ChatWidget_initial [])) (Fulfilled None)
        (lit ''2025-01-01T00:00:06.000Z'') (ChatWidget_initial []))
       = messages (ChatWidget_initial [])
         @ [ChatWidget_errorMessage (lit ''2025-01-01T00:00:06.000Z'')]"
  using failure_appends_error_message [where r = Rejected
      and req = "Dashboard_request (lit ''Hello'') (Dashboard_initial [])"
      and ?now1.0 = "lit ''2025-01-01T00:00:06.000Z''" and ?now2.0 = "lit ''2025-01-01T00:00:06.001Z''"
      and s = "Dashboard_initial []"]
    failure_appends_error_message [where r = "Fulfilled None"
      and req = "ChatWidget_request (lit ''Hello'') (ChatWidget_initial [])"
      and now = "lit ''2025-01-01T00:00:06.000Z''" and c = "ChatWidget_initial []"]
  by simp

text \<open>
  Three sends that the claim counts as failed. Two rejected sends of the Dashboard at
  different clock readings: the bodies of the two error messages differ. An answer \<open>{}\<close>,
  a response that lacks every property: the Dashboard appends a message that is not flagged
  and has no content. A rejected send of the ChatWidget: the body is the one sentence, not
  the Dashboard's script.
\<close>

theorem error_message_counterexample:
  "content (last (messages (Dashboard_handleSendMessage_settled
       (Dashboard_request (lit ''Hello'') (Dashboard_initial [])) Rejected
       (lit ''2025-01-01T00:00:00.000Z'') (lit ''2025-01-01T00:00:00.000Z'')
       (Dashboard_initial []))))
   \<noteq> content (last (messages (Dashboard_handleSendMessage_settled
       (Dashboard_request (lit ''Hello'') (Dashboard_initial [])) Rejected
       (lit ''2025-01-01T00:00:09.000Z'') (lit ''2025-01-01T00:00:09.000Z'')
       (Dashboard_initial []))))
   \<and> \<not> isError (last (messages (Dashboard_handleSendMessage_settled
       (Dashboard_request (lit ''Hello'') (Dashboard_initial [])) (Fulfilled (Some emptyObject))
       (lit ''2025-01-01T00:00:00.000Z'') (lit ''2025-01-01T00:00:00.000Z'')
       (Dashboard_initial []))))
   \<and> content (last (messages (Dashboard_handleSendMessage_settled
       (Dashboard_request (lit ''Hello'') (Dashboard_initial [])) (Fulfilled (Some emptyObject))
       (lit ''2025-01-01T00:00:00.000Z'') (lit ''2025-01-01T00:00:00.000Z'')
       (Dashboard_initial [])))) = None
   \<and> content (last (messages (ChatWidget_handleSendMessage_settled
       (ChatWidget_request (lit ''Hello'') (ChatWidget_initial [])) Rejected
       (lit ''2025-01-01T00:00:00.000Z'') (ChatWidget_initial []))))
     = Some (lit ''An error occurred processing your request. Please try again or contact support if the issue persists.'')
   \<and> content (last (messages (ChatWidget_handleSendMessage_settled
       (ChatWidget_request (lit ''Hello'') (ChatWidget_initial [])) Rejected
       (lit ''2025-01-01T00:00:00.000Z'') (ChatWidget_initial []))))
     \<noteq> content (last (messages (Dashboard_handleSendMessage_settled
       (Dashboard_request (lit ''Hello'') (Dashboard_initial [])) Rejected
       (lit ''2025-01-01T00:00:00.000Z'') (lit ''2025-01-01T00:00:00.000Z'')
       (Dashboard_initial []))))"
  by (simp add: Dashboard_settled_messages ChatWidget_settled_messages botMessage_def
      emptyObject_def Dashboard_errorMessage_def ChatWidget_errorMessage_def
      Dashboard_errorContent_def Dashboard_errorScript_def lit_def)

section \<open>Views, modes, reset and history\<close>

text \<open>
  Claim C2. Whenever the timeline holds a message the Dashboard renders the timeline, not the
  tour, whatever the state of the tour component is; it renders the tour exactly when the
  tour is chosen (\<open>showGuidedTour\<close>) and the timeline is empty, and the timeline in every
  other case.
\<close>

theorem Dashboard_render_exclusive:
  "(messages s \<noteq> [] \<longrightarrow> Dashboard_render s = TimelineView (messages s) (isLoading s))
   \<and> (Dashboard_render s = TourView) = (showGuidedTour s \<and> messages s = [])
   \<and> (\<not> (showGuidedTour s \<and> messages s = []) \<longrightarrow>
        Dashboard_render s = TimelineView (messages s) (isLoading s))
   \<and> Dashboard_render (s\<lparr>guidedTour := g\<rparr>) = Dashboard_render s"
  by (auto simp: Dashboard_render_def)

theorem Dashboard_render_exclusive_witness:
  "messages ((Dashboard_initial [])\<lparr>messages := [userMessage (lit ''Hello'') (lit ''t'')],
       guidedTour := Some \<lparr>currentStage = 2, tourStarted = True\<rparr>\<rparr>) \<noteq> []
   \<and> \<not> (showGuidedTour ((Dashboard_initial [])\<lparr>messages := [userMessage (lit ''Hello'') (lit ''t'')],
       guidedTour := Some \<lparr>currentStage = 2, tourStarted = True\<rparr>\<rparr>)
       \<and> messages ((Dashboard_initial [])\<lparr>messages := [userMessage (lit ''Hello'') (lit ''t'')],
       guidedTour := Some \<lparr>currentStage = 2, tourStarted = True\<rparr>\<rparr>) = [])
   \<and> Dashboard_render ((Dashboard_initial [])\<lparr>messages := [userMessage (lit ''Hello'') (lit ''t'')],
       guidedTour := Some \<lparr>currentStage = 2, tourStarted = True\<rparr>\<rparr>)
       = TimelineView [userMessage (lit ''Hello'') (lit ''t'')] False
   \<and> Dashboard_render (Dashboard_initial []) = TourView"
  using Dashboard_render_exclusive
    [of "(Dashboard_initial [])\<lparr>messages := [userMessage (lit ''Hello'') (lit ''t'')],
       guidedTour := Some \<lparr>currentStage = 2, tourStarted = True\<rparr>\<rparr>"]
    Dashboard_render_exclusive [of "Dashboard_initial []"]
  by (simp add: Dashboard_initial_def)

text \<open>
  Claim C8. A change of mode in the ChatWidget appends exactly one message of role
  \<open>system\<close>, leaves every earlier message, the session and the stored token as they were,
  and sets the mode. Every send posts the mode and module of the state it is called in, so
  the send after the change carries the new mode and still leaves the earlier messages in
  place. The Dashboard has no mode to change: its sends carry \<open>general_qa\<close> and the
  module of the state they are called in.
\<close>

theorem mode_change_annotates_and_routes:
  "length (messages (handleModeChange newMode now c)) = length (messages c) + 1
   \<and> take (length (messages c)) (messages (handleModeChange newMode now c)) = messages c
   \<and> role (last (messages (handleModeChange newMode now c))) = Some (lit ''system'')
   \<and> sessionId (handleModeChange newMode now c) = sessionId c
   \<and> localStorage (handleModeChange newMode now c) = localStorage c
   \<and> selectedModule (handleModeChange newMode now c) = selectedModule c
   \<and> inFlight (handleModeChange newMode now c) = inFlight c
   \<and> mode (handleModeChange newMode now c) = newMode
   \<and> (trim msg \<noteq> [] \<longrightarrow>
        inFlight (ChatWidget_handleSendMessage msg now' c)
          = inFlight c @ [\<lparr>req_message = msg, req_session_id = sessionId c,
                            req_mode = mode c, req_module = selectedModule c\<rparr>]
        \<and> inFlight (ChatWidget_handleSendMessage msg now' (handleModeChange newMode now c))
          = inFlight c @ [\<lparr>req_message = msg, req_session_id = sessionId c,
                            req_mode = newMode, req_module = selectedModule c\<rparr>]
        \<and> take (length (messages c))
             (messages (ChatWidget_handleSendMessage msg now' (handleModeChange newMode now c)))
            = messages c
        \<and> inFlight (Dashboard_handleSendMessage msg now' s)
          = inFlight s @ [\<lparr>req_message = msg, req_session_id = sessionId s,
                            req_mode = lit ''general_qa'', req_module = selectedModule s\<rparr>])"
  by (simp add: handleModeChange_def ChatWidget_handleSendMessage_def ChatWidget_request_def
      Dashboard_handleSendMessage_def Dashboard_request_def)

theorem mode_change_annotates_and_routes_witness:
  "trim (lit ''Hello'') \<noteq> []
   \<and> inFlight (ChatWidget_handleSendMessage (lit ''Hello'') (lit ''2025-01-01T00:00:03.000Z'')
        (handleModeChange (lit ''module_deep_dive'') (lit ''2025-01-01T00:00:02.000Z'')
           ((ChatWidget_initial [])\<lparr>messages := exchange helloAnswered\<rparr>)))
       = [\<lparr>req_message = lit ''Hello'', req_session_id = None,
           req_mode = lit ''module_deep_dive'', req_module = None\<rparr>]
   \<and> length (messages (handleModeChange (lit ''module_deep_dive'') (lit ''2025-01-01T00:00:02.000Z'')
           ((ChatWidget_initial [])\<lparr>messages := exchange helloAnswered\<rparr>))) = 3
   \<and> take 2 (messages (ChatWidget_handleSendMessage (lit ''Hello'') (lit ''2025-01-01T00:00:03.000Z'')
        (handleModeChange (lit ''module_deep_dive'') (lit ''2025-01-01T00:00:02.000Z'')
           ((ChatWidget_initial [])\<lparr>messages := exchange helloAnswered\<rparr>))))
       = exchange helloAnswered"
  using mode_change_annotates_and_routes [where msg = "lit ''Hello''"
      and newMode = "lit ''module_deep_dive''" and now = "lit ''2025-01-01T00:00:02.000Z''"
      and now' = "lit ''2025-01-01T00:00:03.000Z''"
      and c = "(ChatWidget_initial [])\<lparr>messages := exchange helloAnswered\<rparr>"]
    trim_Hello
  by (simp add: ChatWidget_initial_def exchange_def numeral_2_eq_2 numeral_3_eq_3)

text \<open>
  Claim C9, as amended. A new conversation takes the token \<open>uuidv4()\<close> returned as the
  session, whatever the state was, and stores it under the key \<open>docbot_session_id\<close>. In
  the Dashboard it empties the timeline and chooses the tour, so that the tour view is
  rendered, and a tour component that was not mounted is mounted not started. In the
  ChatWidget it replaces the timeline by the welcome message alone and shows the welcome
  again.
\<close>

theorem new_conversation_resets:
  "sessionId (Dashboard_handleNewConversation uuid s) = Some uuid
   \<and> getItem storageKey (localStorage (Dashboard_handleNewConversation uuid s)) = Some uuid
   \<and> messages (Dashboard_handleNewConversation uuid s) = []
   \<and> showGuidedTour (Dashboard_handleNewConversation uuid s)
   \<and> Dashboard_render (Dashboard_handleNewConversation uuid s) = TourView
   \<and> (guidedTour s = None \<longrightarrow>
        map_option GuidedTour_render (guidedTour (Dashboard_call now uuid OnNewConversation s))
          = Some NotStarted)
   \<and> sessionId (ChatWidget_handleNewConversation uuid now c) = Some uuid
   \<and> getItem storageKey (localStorage (ChatWidget_handleNewConversation uuid now c)) = Some uuid
   \<and> messages (ChatWidget_handleNewConversation uuid now c) = [welcomeMsg now]
   \<and> showWelcome (ChatWidget_handleNewConversation uuid now c)"
  by (simp add: Dashboard_handleNewConversation_def ChatWidget_handleNewConversation_def
      addWelcomeMessage_def getItem_setItem Dashboard_render_def commit_def
      GuidedTour_render_def GuidedTour_initial_def)

theorem new_conversation_resets_witness:
  "guidedTour (Dashboard_send helloAnswered (Dashboard_initial [])) = None
   \<and> map_option GuidedTour_render
        (guidedTour (Dashboard_call (lit ''2025-01-01T00:00:20.000Z'')
           (lit ''1b4e28ba-2fa1-41d2-883f-0016d3cca427'') OnNewConversation
           (Dashboard_send helloAnswered (Dashboard_initial [])))) = Some NotStarted
   \<and> messages (Dashboard_handleNewConversation (lit ''1b4e28ba-2fa1-41d2-883f-0016d3cca427'')
        (Dashboard_send helloAnswered (Dashboard_initial []))) = []
   \<and> sessionId (Dashboard_handleNewConversation (lit ''1b4e28ba-2fa1-41d2-883f-0016d3cca427'')
        (Dashboard_send helloAnswered (Dashboard_initial [])))
       = Some (lit ''1b4e28ba-2fa1-41d2-883f-0016d3cca427'')"
proof -
  have unmounted: "guidedTour (Dashboard_send helloAnswered (Dashboard_initial [])) = None"
    by (simp add: Dashboard_send_def helloAnswered_def trim_Hello commit_def Dashboard_render_def
        Dashboard_settled_messages)
  from new_conversation_resets [where uuid = "lit ''1b4e28ba-2fa1-41d2-883f-0016d3cca427''"
      and now = "lit ''2025-01-01T00:00:20.000Z''"
      and s = "Dashboard_send helloAnswered (Dashboard_initial [])"] unmounted
  show ?thesis by simp
qed

text \<open>
  After a new conversation the timeline of the ChatWidget is not empty: it holds the welcome
  message.
\<close>

theorem new_conversation_keeps_welcome_counterexample:
  "messages (ChatWidget_handleNewConversation (lit ''1b4e28ba-2fa1-41d2-883f-0016d3cca427'')
      (lit ''2025-01-01T00:00:00.000Z'') (ChatWidget_initial [])) \<noteq> []"
  by (simp add: ChatWidget_handleNewConversation_def addWelcomeMessage_def)

text \<open>
  A tour component that is mounted when the new conversation starts keeps its stage: the
  handler changes neither the choice of the tour nor the emptiness of the timeline, so the
  component stays rendered and React keeps its state.
\<close>

lemma mounted_tour_survives_new_conversation:
  "guidedTour s = Some t \<Longrightarrow>
   guidedTour (Dashboard_call now uuid OnNewConversation s) = Some t"
  by (simp add: Dashboard_handleNewConversation_def Dashboard_render_def commit_def)

text \<open>
  Claim C10. The Dashboard's history load leaves the whole state as it was when the fetch
  fails, when the response has no data or no message list, and when the list is empty. It
  changes the state only for a list of at least one message, and then it replaces the
  timeline by the formatted list and hides the tour.
\<close>

theorem loadHistory_replaces_only_nonempty:
  "Dashboard_loadHistory_settled Rejected s = s
   \<and> Dashboard_loadHistory_settled (Fulfilled None) s = s
   \<and> (h_messages d = None \<or> h_messages d = Some [] \<longrightarrow>
        Dashboard_loadHistory_settled (Fulfilled (Some d)) s = s)
   \<and> (Dashboard_loadHistory_settled r s \<noteq> s \<longrightarrow>
        (\<exists>d ms. r = Fulfilled (Some d) \<and> h_messages d = Some ms \<and> ms \<noteq> []))
   \<and> (h_messages d = Some ms \<and> ms \<noteq> [] \<longrightarrow>
         Dashboard_loadHistory_settled (Fulfilled (Some d)) s
           = s\<lparr>messages := map formatMessage ms, showGuidedTour := False\<rparr>)"
  by (auto simp: Dashboard_loadHistory_settled_def split: settled.splits option.splits)

theorem loadHistory_replaces_only_nonempty_witness:
  "(h_messages \<lparr>h_messages = Some []\<rparr> = None \<or> h_messages \<lparr>h_messages = Some []\<rparr> = Some [])
   \<and> Dashboard_loadHistory_settled (Fulfilled (Some \<lparr>h_messages = Some []\<rparr>)) (Dashboard_initial [])
       = Dashboard_initial []
   \<and> Dashboard_loadHistory_settled (Fulfilled (Some historyOfOne)) (Dashboard_initial [])
       \<noteq> Dashboard_initial []
   \<and> (\<exists>d ms. Fulfilled (Some historyOfOne) = Fulfilled (Some d) \<and> h_messages d = Some ms \<and> ms \<noteq> [])
   \<and> length (messages (Dashboard_loadHistory_settled (Fulfilled (Some historyOfOne))
        (Dashboard_initial []))) = 1
   \<and> \<not> showGuidedTour (Dashboard_loadHistory_settled (Fulfilled (Some historyOfOne))
        (Dashboard_initial []))"
proof -
  have e: "Dashboard_loadHistory_settled (Fulfilled (Some \<lparr>h_messages = Some []\<rparr>)) (Dashboard_initial [])
       = Dashboard_initial []"
    using loadHistory_replaces_only_nonempty
      [where d = "\<lparr>h_messages = Some []\<rparr>" and s = "Dashboard_initial []"]
    by simp
  obtain m where hm: "h_messages historyOfOne = Some [m]"
    by (simp add: historyOfOne_def)
  from loadHistory_replaces_only_nonempty
      [where d = historyOfOne and ms = "[m]" and s = "Dashboard_initial []"] hm
  have r: "Dashboard_loadHistory_settled (Fulfilled (Some historyOfOne)) (Dashboard_initial [])
      = (Dashboard_initial [])\<lparr>messages := map formatMessage [m], showGuidedTour := False\<rparr>"
    by simp
  have sg: "showGuidedTour (Dashboard_initial [])"
    by (simp add: Dashboard_initial_def)
  from r have hid: "\<not> showGuidedTour
      (Dashboard_loadHistory_settled (Fulfilled (Some historyOfOne)) (Dashboard_initial []))"
    by simp
  have ne: "Dashboard_loadHistory_settled (Fulfilled (Some historyOfOne)) (Dashboard_initial [])
       \<noteq> Dashboard_initial []"
  proof
    assume "Dashboard_loadHistory_settled (Fulfilled (Some historyOfOne)) (Dashboard_initial [])
       = Dashboard_initial []"
    with hid sg show False by simp
  qed
  from loadHistory_replaces_only_nonempty
      [where r = "Fulfilled (Some historyOfOne)" and s = "Dashboard_initial []"] ne
  have ex: "\<exists>d ms. Fulfilled (Some historyOfOne) = Fulfilled (Some d) \<and> h_messages d = Some ms \<and> ms \<noteq> []"
    by blast
  from e r hid ne ex show ?thesis by simp
qed

end
